theory Spec2Isabelle
  imports Complex_Main
begin

section \<open>JavaScript values read by the detection handler\<close>

text \<open>
  The development embeds \<open>handleDetectDisease\<close>, \<open>fileToBase64\<close> and
  \<open>handleImageChange\<close> of the dashboard's \<open>App\<close> component. Strings are lists of
  8-bit characters, read as the code points U+0000 to U+00FF (a range closed under
  \<open>String.prototype.toLowerCase\<close>).
\<close>

subsection \<open>Strings\<close>

definition toLowerCase_char :: "char \<Rightarrow> char" where
  "toLowerCase_char c =
     (let n = (of_char c :: nat)
      in if (65 \<le> n \<and> n \<le> 90) \<or> (192 \<le> n \<and> n \<le> 222 \<and> n \<noteq> 215)
         then char_of (n + 32) else c)"

definition toLowerCase :: "string \<Rightarrow> string" where
  "toLowerCase s = map toLowerCase_char s"

text \<open>The upper-case partner of an ASCII lower-case letter; every other character is its own.\<close>

definition upper_ascii :: "char \<Rightarrow> char" where
  "upper_ascii c =
     (let n = (of_char c :: nat)
      in if 97 \<le> n \<and> n \<le> 122 then char_of (n - 32) else c)"

text \<open>
  \<open>letter_case_variant w s\<close>: \<open>s\<close> spells the lower-case word \<open>w\<close> with each letter in
  either case.
\<close>

definition letter_case_variant :: "string \<Rightarrow> string \<Rightarrow> bool" where
  "letter_case_variant w s = list_all2 (\<lambda>c x. x = c \<or> x = upper_ascii c) w s"

text \<open>Decimal digits of a natural number, most significant first.\<close>

definition digit_char :: "nat \<Rightarrow> char" where
  "digit_char d = char_of (48 + d)"

fun digits :: "nat \<Rightarrow> string" where
  "digits n = (if n < 10 then [digit_char n] else digits (n div 10) @ [digit_char (n mod 10)])"

declare digits.simps [simp del]

text \<open>\<open>s.split(',')\<close>: the pieces of \<open>s\<close> between commas (never an empty list).\<close>

fun split_comma :: "string \<Rightarrow> string list" where
  "split_comma [] = [[]]"
| "split_comma (c # cs) =
     (if c = CHR '','' then [] # split_comma cs
      else (case split_comma cs of p # ps \<Rightarrow> (c # p) # ps | [] \<Rightarrow> [[c]]))"

text \<open>Indexing an array: \<open>undefined\<close> (here \<open>None\<close>) out of range.\<close>

definition index :: "'a list \<Rightarrow> nat \<Rightarrow> 'a option" where
  "index xs i = (if i < length xs then Some (xs ! i) else None)"

subsection \<open>Numbers\<close>

text \<open>
  A Number is an IEEE 754 binary64 value: \<open>Finite s m e\<close> is \<open>(-1)\<^sup>s * m * 2\<^sup>e\<close>
  (\<open>s\<close> set for a negative sign, so \<open>Finite True 0 e\<close> is \<open>-0\<close>).
\<close>

datatype number = Finite bool nat int | Infinity bool | NaN

fun is_zero :: "number \<Rightarrow> bool" where
  "is_zero (Finite s m e) = (m = 0)"
| "is_zero _ = False"

text \<open>The magnitude \<open>m * 2\<^sup>e\<close> as a rational.\<close>

definition magnitude :: "nat \<Rightarrow> int \<Rightarrow> rat" where
  "magnitude m e = (if 0 \<le> e then of_nat m * 2 ^ nat e else of_nat m / 2 ^ nat (- e))"

text \<open>Number of binary digits of a natural number.\<close>

fun bit_length :: "nat \<Rightarrow> nat" where
  "bit_length n = (if n = 0 then 0 else Suc (bit_length (n div 2)))"

declare bit_length.simps [simp del]

text \<open>
  \<open>m / 2\<^sup>k\<close> rounded to an integer, to nearest with ties to even.
\<close>

definition round_shift :: "nat \<Rightarrow> nat \<Rightarrow> nat" where
  "round_shift m k =
     (let q = m div 2 ^ k; r = m mod 2 ^ k
      in if 2 ^ k < 2 * r \<or> (2 * r = 2 ^ k \<and> odd q) then q + 1 else q)"

text \<open>The value \<open>(-1)\<^sup>s * m * 2\<^sup>e\<close>, or infinity when the exponent is out of range.\<close>

definition finite_or_overflow :: "bool \<Rightarrow> nat \<Rightarrow> int \<Rightarrow> number" where
  "finite_or_overflow s m e = (if 971 < e then Infinity s else Finite s m e)"

text \<open>
  Rounding the exact value \<open>(-1)\<^sup>s * m * 2\<^sup>e\<close> to binary64, to nearest with ties
  to even: 53 significant bits, least exponent \<open>-1074\<close>, overflow to infinity from
  \<open>2\<^sup>1\<^sup>0\<^sup>2\<^sup>4\<close>. The result is normalised (a significand of 53 bits, or exponent
  \<open>-1074\<close>).
\<close>

definition round_binary64 :: "bool \<Rightarrow> nat \<Rightarrow> int \<Rightarrow> number" where
  "round_binary64 s m e =
     (if m = 0 then Finite s 0 0
      else
        let e' = max (e + int (bit_length m) - 53) (- 1074)
        in if e' \<le> e then finite_or_overflow s (m * 2 ^ nat (e - e')) e'
           else
             let q' = round_shift m (nat (e' - e))
             in if q' = 2 ^ 53 then finite_or_overflow s (2 ^ 52) (e' + 1)
                else finite_or_overflow s q' e')"

text \<open>The product \<open>x * y\<close> of two Numbers.\<close>

fun times_number :: "number \<Rightarrow> number \<Rightarrow> number" where
  "times_number (Finite s m e) (Finite s' m' e') = round_binary64 (s \<noteq> s') (m * m') (e + e')"
| "times_number (Finite s m e) (Infinity s') = (if m = 0 then NaN else Infinity (s \<noteq> s'))"
| "times_number (Infinity s) (Finite s' m' e') = (if m' = 0 then NaN else Infinity (s \<noteq> s'))"
| "times_number (Infinity s) (Infinity s') = Infinity (s \<noteq> s')"
| "times_number NaN _ = NaN"
| "times_number _ NaN = NaN"

text \<open>The literal \<open>100\<close>.\<close>

definition hundred :: number where
  "hundred = Finite False 25 2"

text \<open>
  \<open>Number.prototype.toFixed(2)\<close> on a finite value below \<open>10\<^sup>2\<^sup>1\<close>: the integer \<open>n\<close> for
  which \<open>n / 100 - x\<close> is as close to zero as possible, the larger one of two.
\<close>

definition nearest_hundredths :: "nat \<Rightarrow> int \<Rightarrow> nat" where
  "nearest_hundredths m e =
     (if 0 \<le> e then m * 2 ^ nat e * 100
      else (200 * m + 2 ^ nat (- e)) div (2 * 2 ^ nat (- e)))"

text \<open>
  The digits of \<open>n\<close>, padded with zeros to three, with the point before the last two.
\<close>

definition fixed2 :: "nat \<Rightarrow> string" where
  "fixed2 n =
     (let m = digits n;
          m' = (if length m \<le> 2 then replicate (3 - length m) (CHR ''0'') @ m else m);
          k = length m'
      in take (k - 2) m' @ ''.'' @ drop (k - 2) m')"

text \<open>
  \<open>x.toFixed(2)\<close>. A Number that is not finite, or of magnitude \<open>10\<^sup>2\<^sup>1\<close> or more, is
  rendered by \<open>Number::toString\<close>, which for a finite value is the engine's shortest
  round-trip rendering, taken here as the parameter \<open>toString\<close>.
\<close>

fun toFixed2 :: "(number \<Rightarrow> string) \<Rightarrow> number \<Rightarrow> string" where
  "toFixed2 toString NaN = ''NaN''"
| "toFixed2 toString (Infinity s) = (if s then ''-Infinity'' else ''Infinity'')"
| "toFixed2 toString (Finite s m e) =
     (if s \<and> m \<noteq> 0 then ''-'' else '''') @
     (if 10 ^ 21 \<le> magnitude m e then toString (Finite False m e)
      else fixed2 (nearest_hundredths m e))"

subsection \<open>Parsed JSON\<close>

text \<open>
  The values \<open>JSON.parse\<close> produces. An object is its list of own properties; a property
  read finds the first binding of the key.
\<close>

datatype jsval =
    JNull
  | JBool bool
  | JNum number
  | JStr string
  | JArr "jsval list"
  | JObj "(string \<times> jsval) list"

text \<open>Faults the engine raises while it evaluates the handler's own expressions.\<close>

datatype fault =
    PropertyOfNull string   \<comment> \<open>reading the named property of \<open>null\<close>\<close>
  | NotAFunction string     \<comment> \<open>calling the named property, which is not a function\<close>

text \<open>
  What can be thrown inside the handler: \<open>Error m\<close> is \<open>new Error(m)\<close>, \<open>TypeError f\<close> an
  engine fault, and \<open>Thrown msg\<close> a value a collaborator threw or rejected with, whose
  \<open>message\<close> property reads as \<open>msg\<close> (\<open>None\<close> for \<open>undefined\<close>).
\<close>

datatype exn = Error string | TypeError fault | Thrown "string option"

text \<open>
  ToBoolean. A property that is absent reads as \<open>undefined\<close>, here \<open>None\<close>.
\<close>

fun truthy :: "jsval option \<Rightarrow> bool" where
  "truthy None = False"
| "truthy (Some JNull) = False"
| "truthy (Some (JBool b)) = b"
| "truthy (Some (JNum n)) = (\<not> is_zero n \<and> n \<noteq> NaN)"
| "truthy (Some (JStr s)) = (s \<noteq> [])"
| "truthy (Some (JArr xs)) = True"
| "truthy (Some (JObj kvs)) = True"

text \<open>
  \<open>v.k\<close> for the property names the handler reads (\<open>outputs\<close>, \<open>model_predictions\<close>,
  \<open>predictions\<close>, \<open>class\<close>, \<open>confidence\<close>): none is defined on a prototype, so only an
  object has them; reading a property of \<open>null\<close> throws.
\<close>

fun get :: "jsval \<Rightarrow> string \<Rightarrow> exn + jsval option" where
  "get JNull k = Inl (TypeError (PropertyOfNull k))"
| "get (JObj kvs) k = Inr (map_of kvs k)"
| "get _ k = Inr None"

section \<open>The collaborators of the handler\<close>

text \<open>A selected image: its declared media type and its bytes.\<close>

datatype js_file = File string "nat list"

text \<open>
  How a \<open>FileReader\<close> ends \<open>readAsDataURL\<close>: the \<open>load\<close> event with \<open>reader.result\<close>, or the
  \<open>error\<close> event.
\<close>

datatype reader_event = Load string | ReadError

record request =
  req_method :: string
  req_headers :: "(string \<times> string) list"
  req_body :: string

text \<open>
  A response: its status, and what reading its body gives (\<open>response.text()\<close> resolves
  with the text or rejects).
\<close>

record response =
  status :: nat
  body_text :: "exn + string"

text \<open>\<open>response.ok\<close>: the status is in the range 200 to 299.\<close>

definition ok :: "response \<Rightarrow> bool" where
  "ok r = (200 \<le> status r \<and> status r \<le> 299)"

text \<open>
  The platform and the outside world of one invocation: the file reader, the network, the
  engine's \<open>JSON.parse\<close>, \<open>JSON.stringify\<close> (with its indentation), \<open>Number::toString\<close>,
  the text of the engine's TypeError messages, and \<open>URL.createObjectURL\<close>.
\<close>

record env =
  readAsDataURL :: "js_file \<Rightarrow> reader_event"
  fetch :: "string \<Rightarrow> request \<Rightarrow> exn + response"
  JSON_parse :: "string \<Rightarrow> exn + jsval"
  JSON_stringify :: "jsval \<Rightarrow> nat \<Rightarrow> string"
  Number_toString :: "number \<Rightarrow> string"
  TypeError_message :: "fault \<Rightarrow> string"
  createObjectURL :: "js_file \<Rightarrow> string"

text \<open>\<open>response.json()\<close>: the body text, parsed.\<close>

definition response_json :: "env \<Rightarrow> response \<Rightarrow> exn + jsval" where
  "response_json E r = (case body_text r of Inl e \<Rightarrow> Inl e | Inr t \<Rightarrow> JSON_parse E t)"

text \<open>The interpolation \<open>${error.message}\<close>.\<close>

fun error_message :: "env \<Rightarrow> exn \<Rightarrow> string" where
  "error_message E (Error m) = m"
| "error_message E (TypeError f) = TypeError_message E f"
| "error_message E (Thrown (Some m)) = m"
| "error_message E (Thrown None) = ''undefined''"

text \<open>What an invocation does to the outside world, in order.\<close>

datatype effect = ReadFile js_file | Post string request

section \<open>The component state and its handlers\<close>

record app_state =
  selectedImage :: "js_file option"
  imagePreviewUrl :: string
  detectionResult :: string
  rawApiResponse :: string
  isLoading :: bool
  errorMessage :: string

definition initial_state :: app_state where
  "initial_state =
     \<lparr>selectedImage = None, imagePreviewUrl = [], detectionResult = [],
      rawApiResponse = [], isLoading = False, errorMessage = []\<rparr>"

definition ROBOTFLOW_API_KEY :: string where
  "ROBOTFLOW_API_KEY = ''77URwEVgvgWzOu2ft6CF''"

definition ROBOTFLOW_WORKFLOW_ENDPOINT :: string where
  "ROBOTFLOW_WORKFLOW_ENDPOINT =
     ''https://serverless.roboflow.com/infer/workflows/poultrydetection-ptwgp/detect-and-classify-2''"

text \<open>\<open>handleImageChange\<close>, given \<open>event.target.files[0]\<close>.\<close>

definition handleImageChange :: "env \<Rightarrow> js_file option \<Rightarrow> app_state \<Rightarrow> app_state" where
  "handleImageChange E f s =
     (case f of
        Some img \<Rightarrow>
          s\<lparr>selectedImage := Some img, imagePreviewUrl := createObjectURL E img,
            detectionResult := [], rawApiResponse := [], errorMessage := []\<rparr>
      | None \<Rightarrow>
          s\<lparr>selectedImage := None, imagePreviewUrl := [],
            detectionResult := [], rawApiResponse := [], errorMessage := []\<rparr>)"

text \<open>
  \<open>fileToBase64\<close>: the promise resolves with \<open>reader.result.split(',')[1]\<close> (\<open>None\<close> when
  the result holds no comma), or rejects with the error event, which has no \<open>message\<close>.
\<close>

definition fileToBase64 :: "env \<Rightarrow> js_file \<Rightarrow> exn + string option" where
  "fileToBase64 E f =
     (case readAsDataURL E f of
        Load result \<Rightarrow> Inr (index (split_comma result) 1)
      | ReadError \<Rightarrow> Inl (Thrown None))"

text \<open>
  The request of lines 188 to 203. \<open>JSON.stringify\<close> leaves out a property whose value is
  \<open>undefined\<close>, so \<open>value\<close> is absent when \<open>base64Image\<close> is.
\<close>

definition requestBody :: "string option \<Rightarrow> jsval" where
  "requestBody base64Image =
     JObj [(''api_key'', JStr ROBOTFLOW_API_KEY),
           (''inputs'', JObj [(''image'',
              JObj ((''type'', JStr ''base64'') #
                    (case base64Image of Some v \<Rightarrow> [(''value'', JStr v)] | None \<Rightarrow> [])))])]"

definition post_request :: "env \<Rightarrow> string option \<Rightarrow> request" where
  "post_request E base64Image =
     \<lparr>req_method = ''POST'',
      req_headers = [(''Content-Type'', ''application/json'')],
      req_body = JSON_stringify E (requestBody base64Image) 0\<rparr>"

subsection \<open>The search of lines 218 to 232\<close>

text \<open>
  The guard of line 221 and the read of line 222: \<open>predictions[0]\<close> when
  \<open>output.model_predictions.predictions\<close> is a non-empty array, \<open>None\<close> when the guard fails.
\<close>

definition topPrediction :: "jsval \<Rightarrow> exn + jsval option" where
  "topPrediction output =
     (case get output ''model_predictions'' of
        Inl e \<Rightarrow> Inl e
      | Inr mp \<Rightarrow>
          if \<not> truthy mp then Inr None
          else (case mp of
                  None \<Rightarrow> Inr None
                | Some model_predictions \<Rightarrow>
                    (case get model_predictions ''predictions'' of
                       Inl e \<Rightarrow> Inl e
                     | Inr ps \<Rightarrow>
                         if \<not> truthy ps then Inr None
                         else (case ps of
                                 Some (JArr (p # rest)) \<Rightarrow> Inr (Some p)
                               | _ \<Rightarrow> Inr None))))"

text \<open>
  The test of line 223 on \<open>topPrediction\<close>, giving \<open>predictedClass\<close> and the confidence
  when it passes. \<open>toLowerCase\<close> is a function only on a string.
\<close>

definition accept :: "jsval \<Rightarrow> exn + (string \<times> number) option" where
  "accept entry =
     (case get entry ''class'' of
        Inl e \<Rightarrow> Inl e
      | Inr c \<Rightarrow>
          if \<not> truthy c then Inr None
          else (case get entry ''confidence'' of
                  Inl e \<Rightarrow> Inl e
                | Inr (Some (JNum conf)) \<Rightarrow>
                    (case c of
                       Some (JStr predictedClass) \<Rightarrow>
                         if toLowerCase predictedClass \<noteq> ''chicken''
                         then Inr (Some (predictedClass, conf)) else Inr None
                     | _ \<Rightarrow> Inl (TypeError (NotAFunction ''toLowerCase'')))
                | Inr _ \<Rightarrow> Inr None))"

text \<open>The body of the loop for one \<open>output\<close>.\<close>

definition examine :: "jsval \<Rightarrow> exn + (string \<times> number) option" where
  "examine output =
     (case topPrediction output of
        Inl e \<Rightarrow> Inl e
      | Inr None \<Rightarrow> Inr None
      | Inr (Some entry) \<Rightarrow> accept entry)"

text \<open>The loop over \<open>data.outputs\<close>, left at the first accepted prediction.\<close>

fun for_outputs :: "jsval list \<Rightarrow> exn + (string \<times> number) option" where
  "for_outputs [] = Inr None"
| "for_outputs (output # outputs) =
     (case examine output of
        Inl e \<Rightarrow> Inl e
      | Inr (Some found) \<Rightarrow> Inr (Some found)
      | Inr None \<Rightarrow> for_outputs outputs)"

text \<open>Lines 218 to 232 on the parsed body.\<close>

definition search :: "jsval \<Rightarrow> exn + (string \<times> number) option" where
  "search data =
     (case get data ''outputs'' of
        Inl e \<Rightarrow> Inl e
      | Inr (Some (JArr outputs)) \<Rightarrow> for_outputs outputs
      | Inr _ \<Rightarrow> Inr None)"

subsection \<open>The messages\<close>

definition no_image_message :: string where
  "no_image_message = ''Please select an image first.''"

definition no_prediction_message :: string where
  "no_prediction_message =
     ''No clear disease classification prediction found. The model might not have detected a known disease or output structure is unexpected.''"

definition detected_message :: "string \<Rightarrow> string \<Rightarrow> string" where
  "detected_message predictedClass confidence =
     ''Detected: '' @ predictedClass @ '' (Confidence: '' @ confidence @ ''%)''"

definition failed_message :: "string \<Rightarrow> string" where
  "failed_message m = ''Failed to detect disease: '' @ m @ ''.''"

text \<open>The error thrown for a response that is not ok (lines 208 to 211).\<close>

definition api_error_message :: "nat \<Rightarrow> string \<Rightarrow> string" where
  "api_error_message st errorText =
     (if st = 401 then ''API error: 401 Unauthorized. Check API key/workflow access.''
      else if st = 403 then ''API error: 403 Forbidden. Insufficient permissions/workflow not public.''
      else if st = 422 then ''API error: 422 Unprocessable Entity. Request body structure incorrect.''
      else ''API error: '' @ digits st @ '' - '' @ errorText)"

definition api_error :: "nat \<Rightarrow> string \<Rightarrow> exn" where
  "api_error st errorText = Error (api_error_message st errorText)"

subsection \<open>\<open>handleDetectDisease\<close>\<close>

text \<open>
  The \<open>try\<close> block (lines 186 to 236) from the state after the resets: the exception it ends
  with, if any, the state, and the effects performed.
\<close>

definition try_block :: "env \<Rightarrow> js_file \<Rightarrow> app_state \<Rightarrow> exn option \<times> app_state \<times> effect list" where
  "try_block E img s =
     (case fileToBase64 E img of
        Inl e \<Rightarrow> (Some e, s, [ReadFile img])
      | Inr base64Image \<Rightarrow>
          let req = post_request E base64Image;
              trace = [ReadFile img, Post ROBOTFLOW_WORKFLOW_ENDPOINT req]
          in (case fetch E ROBOTFLOW_WORKFLOW_ENDPOINT req of
                Inl e \<Rightarrow> (Some e, s, trace)
              | Inr resp \<Rightarrow>
                  if \<not> ok resp then
                    (case body_text resp of
                       Inl e \<Rightarrow> (Some e, s, trace)
                     | Inr errorText \<Rightarrow>
                         (Some (api_error (status resp) errorText),
                          s\<lparr>rawApiResponse :=
                              (case JSON_parse E errorText of
                                 Inr parsed \<Rightarrow> JSON_stringify E parsed 2
                               | Inl e \<Rightarrow> errorText)\<rparr>,
                          trace))
                  else
                    (case response_json E resp of
                       Inl e \<Rightarrow> (Some e, s, trace)
                     | Inr data \<Rightarrow>
                         let s' = s\<lparr>rawApiResponse := JSON_stringify E data 2\<rparr>
                         in (case search data of
                               Inl e \<Rightarrow> (Some e, s', trace)
                             | Inr (Some (predictedClass, conf)) \<Rightarrow>
                                 (None,
                                  s'\<lparr>detectionResult :=
                                      detected_message predictedClass
                                        (toFixed2 (Number_toString E) (times_number conf hundred))\<rparr>,
                                  trace)
                             | Inr None \<Rightarrow>
                                 (None, s'\<lparr>detectionResult := no_prediction_message\<rparr>, trace)))))"

text \<open>
  The handler: the precondition (lines 176 to 179), the resets (lines 181 to 184), the
  \<open>try\<close> block, the \<open>catch\<close> (line 240) and the \<open>finally\<close> (line 242).
\<close>

definition resets :: "app_state \<Rightarrow> app_state" where
  "resets s =
     s\<lparr>isLoading := True, errorMessage := [], detectionResult := [], rawApiResponse := []\<rparr>"

definition handleDetectDisease :: "env \<Rightarrow> app_state \<Rightarrow> app_state \<times> effect list" where
  "handleDetectDisease E s =
     (case selectedImage s of
        None \<Rightarrow> (s\<lparr>errorMessage := no_image_message\<rparr>, [])
      | Some img \<Rightarrow>
          (case try_block E img (resets s) of
             (None, s', trace) \<Rightarrow> (s'\<lparr>isLoading := False\<rparr>, trace)
           | (Some error, s', trace) \<Rightarrow>
               (s'\<lparr>errorMessage := failed_message (error_message E error), isLoading := False\<rparr>,
                trace)))"

text \<open>The \<open>catch\<close> and the \<open>finally\<close> after the exception \<open>e\<close>.\<close>

definition failed :: "env \<Rightarrow> exn \<Rightarrow> app_state \<Rightarrow> app_state" where
  "failed E e s = s\<lparr>errorMessage := failed_message (error_message E e), isLoading := False\<rparr>"

section \<open>The vocabulary of the specification\<close>

text \<open>
  The outcome of an invocation is what the two message slots show afterwards. \<open>Success\<close>
  carries the label and the percentage as the handler prints it.
\<close>

datatype DetectionOutcome =
    NoImageSelected
  | Success string string
  | NoPredictionFound
  | RequestFailed string

fun displays :: "DetectionOutcome \<Rightarrow> app_state \<Rightarrow> bool" where
  "displays NoImageSelected s = (errorMessage s = no_image_message)"
| "displays (Success label percent) s =
     (errorMessage s = [] \<and> detectionResult s = detected_message label percent)"
| "displays NoPredictionFound s =
     (errorMessage s = [] \<and> detectionResult s = no_prediction_message)"
| "displays (RequestFailed reason) s =
     (errorMessage s = failed_message reason \<and> detectionResult s = [])"

text \<open>The variant of an outcome, without what it carries.\<close>

datatype outcome_kind = KNoImage | KSuccess | KNoPrediction | KFailed

fun kind_of :: "DetectionOutcome \<Rightarrow> outcome_kind" where
  "kind_of NoImageSelected = KNoImage"
| "kind_of (Success label percent) = KSuccess"
| "kind_of NoPredictionFound = KNoPrediction"
| "kind_of (RequestFailed reason) = KFailed"

text \<open>
  What the network returned to an invocation: \<open>None\<close> when no request was made (no image,
  or the encoding failed), otherwise the transport error or the response.
\<close>

definition received :: "env \<Rightarrow> app_state \<Rightarrow> (exn + response) option" where
  "received E s =
     (case selectedImage s of
        None \<Rightarrow> None
      | Some img \<Rightarrow>
          (case fileToBase64 E img of
             Inl e \<Rightarrow> None
           | Inr base64Image \<Rightarrow>
               Some (fetch E ROBOTFLOW_WORKFLOW_ENDPOINT (post_request E base64Image))))"

text \<open>An own property of an object; nothing else has one.\<close>

definition field :: "jsval \<Rightarrow> string \<Rightarrow> jsval option" where
  "field v k = (case v of JObj kvs \<Rightarrow> map_of kvs k | _ \<Rightarrow> None)"

text \<open>
  The first entry of an output's \<open>model_predictions.predictions\<close> list, when it has such a
  list and the list is not empty.
\<close>

definition first_entry :: "jsval \<Rightarrow> jsval option" where
  "first_entry output =
     (case field output ''model_predictions'' of
        Some mp \<Rightarrow>
          (case field mp ''predictions'' of Some (JArr (p # ps)) \<Rightarrow> Some p | _ \<Rightarrow> None)
      | None \<Rightarrow> None)"

text \<open>
  The acceptance criterion in the specification's words: a string \<open>class\<close>, a numeric
  \<open>confidence\<close>, and a class that is not \<open>chicken\<close> in any letter case.
\<close>

definition qualifies :: "jsval \<Rightarrow> bool" where
  "qualifies entry =
     (case (field entry ''class'', field entry ''confidence'') of
        (Some (JStr cls), Some (JNum conf)) \<Rightarrow> \<not> letter_case_variant ''chicken'' cls
      | _ \<Rightarrow> False)"

text \<open>
  An entry the test of line 223 cannot evaluate: \<open>null\<close>, or a truthy class that is not a
  string beside a numeric confidence.
\<close>

definition entry_faults :: "jsval \<Rightarrow> bool" where
  "entry_faults entry =
     (entry = JNull \<or>
      (case (field entry ''class'', field entry ''confidence'') of
         (Some (JStr cls), Some (JNum conf)) \<Rightarrow> False
       | (Some c, Some (JNum conf)) \<Rightarrow> truthy (Some c)
       | _ \<Rightarrow> False))"

text \<open>An output the loop body cannot evaluate: \<open>null\<close>, or one whose first entry faults.\<close>

definition output_faults :: "jsval \<Rightarrow> bool" where
  "output_faults output =
     (output = JNull \<or>
      (case first_entry output of Some entry \<Rightarrow> entry_faults entry | None \<Rightarrow> False))"

text \<open>
  An output whose first entry is accepted in the amended sense: the class a string that is
  not empty.
\<close>

definition accepted_entry :: "jsval \<Rightarrow> (string \<times> number) option" where
  "accepted_entry output =
     (case first_entry output of
        Some entry \<Rightarrow>
          (case (field entry ''class'', field entry ''confidence'') of
             (Some (JStr cls), Some (JNum conf)) \<Rightarrow>
               if cls \<noteq> [] \<and> \<not> letter_case_variant ''chicken'' cls
               then Some (cls, conf) else None
           | _ \<Rightarrow> None)
      | None \<Rightarrow> None)"

text \<open>The fault the loop body raises on an output it cannot evaluate.\<close>

definition fault_of :: "jsval \<Rightarrow> exn" where
  "fault_of output =
     (if output = JNull then TypeError (PropertyOfNull ''model_predictions'')
      else if first_entry output = Some JNull then TypeError (PropertyOfNull ''class'')
      else TypeError (NotAFunction ''toLowerCase''))"

text \<open>
  The states the component reaches from its initial state when file selections and
  invocations of the handler follow one another, each running to its end.
\<close>

inductive reachable :: "app_state \<Rightarrow> bool" where
  initial: "reachable initial_state"
| selection: "reachable s \<Longrightarrow> reachable (handleImageChange E f s)"
| detection: "reachable s \<Longrightarrow> reachable (fst (handleDetectDisease E s))"

section \<open>Concrete collaborators for the examples\<close>

text \<open>
  A finite fragment of an engine's JSON: each row is a text, the value it parses to, and
  the value's rendering with indentation 2. Any other text is a syntax error.
\<close>

type_synonym json_table = "(string \<times> jsval \<times> string) list"

definition table_parse :: "json_table \<Rightarrow> string \<Rightarrow> exn + jsval" where
  "table_parse tbl t =
     (case map_of tbl t of
        Some (v, pretty) \<Rightarrow> Inr v
      | None \<Rightarrow> Inl (Thrown (Some ''Unexpected token in JSON'')))"

definition table_stringify :: "json_table \<Rightarrow> jsval \<Rightarrow> nat \<Rightarrow> string" where
  "table_stringify tbl v n =
     (case find (\<lambda>row. fst (snd row) = v) tbl of
        Some (t, v', pretty) \<Rightarrow> (if n = 0 then t else pretty)
      | None \<Rightarrow> ''{...}'')"

definition example_TypeError_message :: "fault \<Rightarrow> string" where
  "example_TypeError_message f =
     (case f of
        PropertyOfNull k \<Rightarrow> ''Cannot read properties of null (reading '' @ k @ '')''
      | NotAFunction k \<Rightarrow> k @ '' is not a function'')"

definition example_env :: "reader_event \<Rightarrow> exn + response \<Rightarrow> json_table \<Rightarrow> env" where
  "example_env ev net tbl =
     \<lparr>readAsDataURL = (\<lambda>f. ev),
      fetch = (\<lambda>url req. net),
      JSON_parse = table_parse tbl,
      JSON_stringify = table_stringify tbl,
      Number_toString = (\<lambda>x. ''1e+21''),
      TypeError_message = example_TypeError_message,
      createObjectURL = (\<lambda>f. ''blob:preview'')\<rparr>"

definition example_image :: js_file where
  "example_image = File ''image/png'' [137, 80, 78, 71]"

definition example_load :: reader_event where
  "example_load = Load ''data:image/png;base64,iVBORw==''"

text \<open>A state with an image selected and messages left by an earlier invocation.\<close>

definition example_state :: app_state where
  "example_state =
     \<lparr>selectedImage = Some example_image, imagePreviewUrl = ''blob:preview'',
      detectionResult = [], rawApiResponse = ''stale'', isLoading = False,
      errorMessage = ''Failed to detect disease: stale.''\<rparr>"

text \<open>A state without an image in which an earlier result is still shown.\<close>

definition stale_state :: app_state where
  "stale_state =
     \<lparr>selectedImage = None, imagePreviewUrl = [],
      detectionResult = ''Detected: Coccidiosis (Confidence: 91.20%)'',
      rawApiResponse = [], isLoading = False, errorMessage = []\<rparr>"

text \<open>An output whose prediction list holds one entry with the given class and confidence.\<close>

definition prediction_output :: "jsval \<Rightarrow> jsval \<Rightarrow> jsval" where
  "prediction_output cls conf =
     JObj [(''model_predictions'',
            JObj [(''predictions'', JArr [JObj [(''class'', cls), (''confidence'', conf)]])])]"

definition outputs_data :: "jsval list \<Rightarrow> jsval" where
  "outputs_data outputs = JObj [(''outputs'', JArr outputs)]"

text \<open>The binary64 values nearest to 0.8734, 0.9 and 0.5.\<close>

definition n_0_8734 :: number where
  "n_0_8734 = Finite False 7866887829090782 (- 53)"

definition n_0_9 :: number where
  "n_0_9 = Finite False 8106479329266893 (- 53)"

definition n_0_5 :: number where
  "n_0_5 = Finite False 4503599627370496 (- 53)"

definition n_7 :: number where
  "n_7 = Finite False 7 0"

text \<open>A response whose body cannot be read: \<open>response.text()\<close> rejects.\<close>

definition unread :: "nat \<Rightarrow> exn + response" where
  "unread st = Inr \<lparr>status = st, body_text = Inl (Thrown (Some ''network error''))\<rparr>"

definition responding :: "nat \<Rightarrow> string \<Rightarrow> exn + response" where
  "responding st t = Inr \<lparr>status = st, body_text = Inr t\<rparr>"

text \<open>The error body of a refused request.\<close>

definition denied_value :: jsval where
  "denied_value = JObj [(''error'', JStr ''denied'')]"

definition denied_text :: string where
  \<open>denied_text = ''{"error":"denied"}''\<close>

definition denied_pretty :: string where
  \<open>denied_pretty =
     ''{\<newline>  "error": "denied"\<newline>}''\<close>

text \<open>A response whose only prediction is the bird itself.\<close>

definition chicken_value :: jsval where
  "chicken_value = outputs_data [prediction_output (JStr ''Chicken'') (JNum n_0_9)]"

definition chicken_text :: string where
  \<open>chicken_text = ''{"outputs":[{"model_predictions":{"predictions":[{"class":"Chicken","confidence":0.9}]}}]}''\<close>

definition chicken_pretty :: string where
  \<open>chicken_pretty =
     ''{\<newline>  "outputs": [\<newline>    {\<newline>      "model_predictions": {\<newline>        "predictions": [\<newline>          {\<newline>            "class": "Chicken",\<newline>            "confidence": 0.9\<newline>          }\<newline>        ]\<newline>      }\<newline>    }\<newline>  ]\<newline>}''\<close>

text \<open>A response with a disease after the bird.\<close>

definition newcastle_value :: jsval where
  "newcastle_value = outputs_data [prediction_output (JStr ''Chicken'') (JNum n_0_9),
       prediction_output (JStr ''Newcastle Disease'') (JNum n_0_8734)]"

definition newcastle_text :: string where
  \<open>newcastle_text = ''{"outputs":[{"model_predictions":{"predictions":[{"class":"Chicken","confidence":0.9}]}},{"model_predictions":{"predictions":[{"class":"Newcastle Disease","confidence":0.8734}]}}]}''\<close>

definition newcastle_pretty :: string where
  \<open>newcastle_pretty =
     ''{\<newline>  "outputs": [\<newline>    {\<newline>      "model_predictions": {\<newline>        "predictions": [\<newline>          {\<newline>            "class": "Chicken",\<newline>            "confidence": 0.9\<newline>          }\<newline>        ]\<newline>      }\<newline>    },\<newline>    {\<newline>      "model_predictions": {\<newline>        "predictions": [\<newline>          {\<newline>            "class": "Newcastle Disease",\<newline>            "confidence": 0.8734\<newline>          }\<newline>        ]\<newline>      }\<newline>    }\<newline>  ]\<newline>}''\<close>

text \<open>A response whose first prediction has the empty string as its class.\<close>

definition empty_class_value :: jsval where
  "empty_class_value = outputs_data [prediction_output (JStr []) (JNum n_0_5),
       prediction_output (JStr ''Coccidiosis'') (JNum n_0_9)]"

definition empty_class_text :: string where
  \<open>empty_class_text = ''{"outputs":[{"model_predictions":{"predictions":[{"class":"","confidence":0.5}]}},{"model_predictions":{"predictions":[{"class":"Coccidiosis","confidence":0.9}]}}]}''\<close>

definition empty_class_pretty :: string where
  \<open>empty_class_pretty =
     ''{\<newline>  "outputs": [\<newline>    {\<newline>      "model_predictions": {\<newline>        "predictions": [\<newline>          {\<newline>            "class": "",\<newline>            "confidence": 0.5\<newline>          }\<newline>        ]\<newline>      }\<newline>    },\<newline>    {\<newline>      "model_predictions": {\<newline>        "predictions": [\<newline>          {\<newline>            "class": "Coccidiosis",\<newline>            "confidence": 0.9\<newline>          }\<newline>        ]\<newline>      }\<newline>    }\<newline>  ]\<newline>}''\<close>

text \<open>A response whose prediction has a number as its class.\<close>

definition mistyped_value :: jsval where
  "mistyped_value = outputs_data [prediction_output (JNum n_7) (JNum n_0_9)]"

definition mistyped_text :: string where
  \<open>mistyped_text = ''{"outputs":[{"model_predictions":{"predictions":[{"class":7,"confidence":0.9}]}}]}''\<close>

definition mistyped_pretty :: string where
  \<open>mistyped_pretty =
     ''{\<newline>  "outputs": [\<newline>    {\<newline>      "model_predictions": {\<newline>        "predictions": [\<newline>          {\<newline>            "class": 7,\<newline>            "confidence": 0.9\<newline>          }\<newline>        ]\<newline>      }\<newline>    }\<newline>  ]\<newline>}''\<close>

text \<open>A response with the bird first and then a prediction with a number as its class.\<close>

definition chicken_mistyped_value :: jsval where
  "chicken_mistyped_value = outputs_data [prediction_output (JStr ''Chicken'') (JNum n_0_9),
       prediction_output (JNum n_7) (JNum n_0_9)]"

definition chicken_mistyped_text :: string where
  \<open>chicken_mistyped_text = ''{"outputs":[{"model_predictions":{"predictions":[{"class":"Chicken","confidence":0.9}]}},{"model_predictions":{"predictions":[{"class":7,"confidence":0.9}]}}]}''\<close>

definition chicken_mistyped_pretty :: string where
  \<open>chicken_mistyped_pretty =
     ''{\<newline>  "outputs": [\<newline>    {\<newline>      "model_predictions": {\<newline>        "predictions": [\<newline>          {\<newline>            "class": "Chicken",\<newline>            "confidence": 0.9\<newline>          }\<newline>        ]\<newline>      }\<newline>    },\<newline>    {\<newline>      "model_predictions": {\<newline>        "predictions": [\<newline>          {\<newline>            "class": 7,\<newline>            "confidence": 0.9\<newline>          }\<newline>        ]\<newline>      }\<newline>    }\<newline>  ]\<newline>}''\<close>

text \<open>A response whose only prediction has the empty string as its class.\<close>

definition only_empty_class_value :: jsval where
  "only_empty_class_value = outputs_data [prediction_output (JStr []) (JNum n_0_5)]"

definition only_empty_class_text :: string where
  \<open>only_empty_class_text = ''{"outputs":[{"model_predictions":{"predictions":[{"class":"","confidence":0.5}]}}]}''\<close>

definition only_empty_class_pretty :: string where
  \<open>only_empty_class_pretty =
     ''{\<newline>  "outputs": [\<newline>    {\<newline>      "model_predictions": {\<newline>        "predictions": [\<newline>          {\<newline>            "class": "",\<newline>            "confidence": 0.5\<newline>          }\<newline>        ]\<newline>      }\<newline>    }\<newline>  ]\<newline>}''\<close>

definition example_table :: json_table where
  "example_table =
     [(denied_text, denied_value, denied_pretty),
      (chicken_text, chicken_value, chicken_pretty),
      (newcastle_text, newcastle_value, newcastle_pretty),
      (empty_class_text, empty_class_value, empty_class_pretty),
      (mistyped_text, mistyped_value, mistyped_pretty),
      (chicken_mistyped_text, chicken_mistyped_value, chicken_mistyped_pretty),
      (only_empty_class_text, only_empty_class_value, only_empty_class_pretty)]"

text \<open>The same platform with a \<open>JSON.stringify\<close> that renders everything as the empty text.\<close>

definition unprinting :: "env \<Rightarrow> env" where
  "unprinting E = E\<lparr>JSON_stringify := (\<lambda>v n. [])\<rparr>"

text \<open>An engine whose file reader fails.\<close>

definition unreadable :: env where
  "unreadable = example_env ReadError (responding 200 chicken_text) example_table"

text \<open>A transport failure.\<close>

definition offline :: "exn + response" where
  "offline = Inl (Thrown (Some ''Failed to fetch''))"

text \<open>An engine and a network that answers every request with \<open>net\<close>.\<close>

definition answering :: "exn + response \<Rightarrow> env" where
  "answering net = example_env example_load net example_table"

section \<open>Properties\<close>

subsection \<open>Auxiliary facts\<close>

lemma toLowerCase_char_lower:
  assumes "97 \<le> (of_char t :: nat)" "(of_char t :: nat) \<le> 122"
  shows "toLowerCase_char x = t \<longleftrightarrow> x = t \<or> x = upper_ascii t"
proof -
  define n where "n = (of_char x :: nat)"
  define k where "k = (of_char t :: nat)"
  have n: "n < 256" by (simp add: n_def)
  have x: "x = char_of n" by (simp add: n_def)
  have t: "t = char_of k" by (simp add: k_def)
  have k: "97 \<le> k" "k \<le> 122" using assms by (simp_all add: k_def)
  have eq: "\<And>a b. a < 256 \<Longrightarrow> b < 256 \<Longrightarrow> (char_of a = (char_of b :: char)) = (a = (b::nat))"
    by (simp add: char_of_eq_iff take_bit_eq_mod)
  have up: "upper_ascii t = char_of (k - 32)"
    using k by (simp add: upper_ascii_def k_def[symmetric] Let_def)
  show ?thesis
    unfolding up unfolding x t toLowerCase_char_def Let_def
    using n k by (auto simp: eq take_bit_eq_mod)
qed

lemma toLowerCase_chicken_iff:
  "toLowerCase s = ''chicken'' \<longleftrightarrow> letter_case_variant ''chicken'' s"
  by (simp add: toLowerCase_def letter_case_variant_def list_all2_Cons1 map_eq_Cons_conv
      toLowerCase_char_lower)

lemma get_field: "v \<noteq> JNull \<Longrightarrow> get v k = Inr (field v k)"
  by (cases v) (simp_all add: field_def)

lemma truthy_field_obj: "field v k = Some w \<Longrightarrow> v \<noteq> JNull"
  by (cases v) (simp_all add: field_def)

lemma topPrediction_null:
  "topPrediction JNull = Inl (TypeError (PropertyOfNull ''model_predictions''))"
  by (simp add: topPrediction_def)

lemma topPrediction_first_entry:
  "output \<noteq> JNull \<Longrightarrow> topPrediction output = Inr (first_entry output)"
  unfolding topPrediction_def first_entry_def
  apply (simp add: get_field)
  apply (cases "field output ''model_predictions''")
   apply simp
   apply (rename_tac mp)
  apply (case_tac mp)
  apply (auto simp: field_def split: jsval.splits option.splits list.splits)
  done

lemma accept_null:
  "accept JNull = Inl (TypeError (PropertyOfNull ''class''))"
  by (simp add: accept_def)

lemma accept_eq:
  "entry \<noteq> JNull \<Longrightarrow>
   accept entry =
     (if entry_faults entry then Inl (TypeError (NotAFunction ''toLowerCase''))
      else (case (field entry ''class'', field entry ''confidence'') of
              (Some (JStr cls), Some (JNum conf)) \<Rightarrow>
                if cls \<noteq> [] \<and> \<not> letter_case_variant ''chicken'' cls
                then Inr (Some (cls, conf)) else Inr None
            | _ \<Rightarrow> Inr None))"
  unfolding accept_def entry_faults_def
  by (auto simp: get_field toLowerCase_chicken_iff split: option.splits jsval.splits)

lemma examine_eq:
  "examine output =
     (if output_faults output then Inl (fault_of output) else Inr (accepted_entry output))"
  unfolding examine_def output_faults_def accepted_entry_def fault_of_def
  apply (cases "output = JNull")
   apply (simp add: topPrediction_null)
  apply (simp add: topPrediction_first_entry)
  apply (cases "first_entry output")
   apply simp
  apply (rename_tac e)
  apply (case_tac "e = JNull")
   apply (simp add: accept_null entry_faults_def)
  apply (simp add: accept_eq)
  apply (auto split: option.splits jsval.splits)
  done

lemma handle_no_image:
  "selectedImage s = None \<Longrightarrow>
   handleDetectDisease E s = (s\<lparr>errorMessage := no_image_message\<rparr>, [])"
  by (simp add: handleDetectDisease_def)

lemma selectedImage_resets [simp]: "selectedImage (resets s) = selectedImage s"
  by (simp add: resets_def)

lemma handle_encoding_failure:
  "selectedImage s = Some img \<Longrightarrow> fileToBase64 E img = Inl e \<Longrightarrow>
   handleDetectDisease E s = (failed E e (resets s), [ReadFile img])"
  by (simp add: handleDetectDisease_def try_block_def failed_def)

lemma receivedE:
  assumes "received E s = Some r"
  obtains img b where "selectedImage s = Some img" "fileToBase64 E img = Inr b"
    "fetch E ROBOTFLOW_WORKFLOW_ENDPOINT (post_request E b) = r"
  using assms by (auto simp: received_def split: option.splits sum.splits)

lemma handle_transport_failure:
  assumes "received E s = Some (Inl e)"
  shows "fst (handleDetectDisease E s) = failed E e (resets s)"
proof -
  from assms obtain img b where "selectedImage s = Some img" "fileToBase64 E img = Inr b"
    "fetch E ROBOTFLOW_WORKFLOW_ENDPOINT (post_request E b) = Inl e"
    by (rule receivedE)
  then show ?thesis
    by (simp add: handleDetectDisease_def try_block_def failed_def Let_def)
qed

lemma handle_not_ok:
  assumes "received E s = Some (Inr resp)" "\<not> ok resp"
  shows "fst (handleDetectDisease E s) =
     (case body_text resp of
        Inl e \<Rightarrow> failed E e (resets s)
      | Inr errorText \<Rightarrow>
          failed E (api_error (status resp) errorText)
            ((resets s)\<lparr>rawApiResponse :=
                (case JSON_parse E errorText of
                   Inr parsed \<Rightarrow> JSON_stringify E parsed 2
                 | Inl e \<Rightarrow> errorText)\<rparr>))"
proof -
  from assms(1) obtain img b where "selectedImage s = Some img" "fileToBase64 E img = Inr b"
    "fetch E ROBOTFLOW_WORKFLOW_ENDPOINT (post_request E b) = Inr resp"
    by (rule receivedE)
  with assms(2) show ?thesis
    by (cases "body_text resp")
       (simp_all add: handleDetectDisease_def try_block_def failed_def Let_def)
qed

lemma handle_ok:
  assumes "received E s = Some (Inr resp)" "ok resp"
  shows "fst (handleDetectDisease E s) =
     (case response_json E resp of
        Inl e \<Rightarrow> failed E e (resets s)
      | Inr data \<Rightarrow>
          (case search data of
             Inl e \<Rightarrow> failed E e ((resets s)\<lparr>rawApiResponse := JSON_stringify E data 2\<rparr>)
           | Inr (Some (predictedClass, conf)) \<Rightarrow>
               (resets s)\<lparr>rawApiResponse := JSON_stringify E data 2,
                 detectionResult :=
                   detected_message predictedClass
                     (toFixed2 (Number_toString E) (times_number conf hundred)),
                 isLoading := False\<rparr>
           | Inr None \<Rightarrow>
               (resets s)\<lparr>rawApiResponse := JSON_stringify E data 2,
                 detectionResult := no_prediction_message, isLoading := False\<rparr>))"
proof -
  from assms(1) obtain img b where "selectedImage s = Some img" "fileToBase64 E img = Inr b"
    "fetch E ROBOTFLOW_WORKFLOW_ENDPOINT (post_request E b) = Inr resp"
    by (rule receivedE)
  with assms(2) show ?thesis
    by (simp add: handleDetectDisease_def try_block_def failed_def Let_def
        split: sum.split option.split prod.split)
qed

lemma received_cases:
  "selectedImage s = Some img \<Longrightarrow>
   (\<exists>e. fileToBase64 E img = Inl e) \<or> (\<exists>e. received E s = Some (Inl e)) \<or>
   (\<exists>resp. received E s = Some (Inr resp))"
proof (cases "fileToBase64 E img")
  case (Inl e)
  then show ?thesis by blast
next
  case (Inr b)
  assume img: "selectedImage s = Some img"
  show ?thesis
  proof (cases "fetch E ROBOTFLOW_WORKFLOW_ENDPOINT (post_request E b)")
    case (Inl e)
    with Inr img have "received E s = Some (Inl e)" by (simp add: received_def)
    then show ?thesis by blast
  next
    case r: (Inr resp)
    with Inr img have "received E s = Some (Inr resp)" by (simp add: received_def)
    then show ?thesis by blast
  qed
qed

lemma failed_simps [simp]:
  "errorMessage (failed E e s) = failed_message (error_message E e)"
  "detectionResult (failed E e s) = detectionResult s"
  "rawApiResponse (failed E e s) = rawApiResponse s"
  "isLoading (failed E e s) = False"
  "selectedImage (failed E e s) = selectedImage s"
  by (simp_all add: failed_def)

lemma resets_simps [simp]:
  "errorMessage (resets s) = []"
  "detectionResult (resets s) = []"
  "rawApiResponse (resets s) = []"
  "isLoading (resets s) = True"
  by (simp_all add: resets_def)

lemma messages_distinct [simp]:
  "failed_message m \<noteq> []" "[] \<noteq> failed_message m"
  "failed_message m \<noteq> no_image_message" "no_image_message \<noteq> failed_message m"
  "detected_message l p \<noteq> []" "[] \<noteq> detected_message l p"
  "detected_message l p \<noteq> no_prediction_message"
  "no_prediction_message \<noteq> detected_message l p"
  "no_prediction_message \<noteq> []" "[] \<noteq> no_prediction_message"
  "no_image_message \<noteq> []" "[] \<noteq> no_image_message"
  "(failed_message m = failed_message m') = (m = m')"
  by (simp_all add: failed_message_def no_image_message_def detected_message_def
      no_prediction_message_def)

lemma example_encoding [simp]:
  "fileToBase64 (example_env example_load net tbl) img = Inr (Some ''iVBORw=='')"
  by (simp add: fileToBase64_def example_env_def example_load_def index_def)

lemma example_received [simp]:
  "received (example_env example_load net tbl) example_state = Some net"
  by (simp add: received_def example_state_def) (simp add: example_env_def)

lemma example_parse [simp]: "JSON_parse (example_env ev net tbl) = table_parse tbl"
  and example_stringify [simp]: "JSON_stringify (example_env ev net tbl) = table_stringify tbl"
  and example_messages [simp]: "TypeError_message (example_env ev net tbl) = example_TypeError_message"
  by (simp_all add: example_env_def)

lemma displays_kind_unique:
  "displays out s \<Longrightarrow> displays out' s \<Longrightarrow> kind_of out' = kind_of out"
  by (cases out; cases out') auto

lemma handle_cases:
  obtains (no_image) "selectedImage s = None"
  | (encoding) img e where "selectedImage s = Some img" "fileToBase64 E img = Inl e"
  | (transport) e where "received E s = Some (Inl e)"
  | (response) resp where "received E s = Some (Inr resp)"
  using received_cases [of s _ E] by (cases "selectedImage s") blast+

lemma handle_outcome:
  "\<exists>out. displays out (fst (handleDetectDisease E s))"
proof (cases rule: handle_cases [where s = s and E = E])
  case no_image
  then have "displays NoImageSelected (fst (handleDetectDisease E s))"
    by (simp add: handle_no_image)
  then show ?thesis ..
next
  case (encoding img e)
  then have "displays (RequestFailed (error_message E e)) (fst (handleDetectDisease E s))"
    by (simp add: handle_encoding_failure)
  then show ?thesis ..
next
  case (transport e)
  then have "displays (RequestFailed (error_message E e)) (fst (handleDetectDisease E s))"
    by (simp add: handle_transport_failure)
  then show ?thesis ..
next
  case (response resp)
  show ?thesis
  proof (cases "ok resp")
    case False
    with response show ?thesis
      by (cases "body_text resp")
         (auto simp: handle_not_ok intro!: exI [where x = "RequestFailed _"])
  next
    case True
    show ?thesis
    proof (cases "response_json E resp")
      case (Inl e)
      with response True
      have "displays (RequestFailed (error_message E e)) (fst (handleDetectDisease E s))"
        by (simp add: handle_ok)
      then show ?thesis ..
    next
      case (Inr data)
      show ?thesis
      proof (cases "search data")
        case (Inl e)
        with response True Inr
        have "displays (RequestFailed (error_message E e)) (fst (handleDetectDisease E s))"
          by (simp add: handle_ok)
        then show ?thesis ..
      next
        case found: (Inr r)
        show ?thesis
        proof (cases r)
          case None
          with response True Inr found
          have "displays NoPredictionFound (fst (handleDetectDisease E s))"
            by (simp add: handle_ok)
          then show ?thesis ..
        next
          case (Some p)
          obtain cls conf where "p = (cls, conf)" by (cases p)
          with Some response True Inr found
          have "displays (Success cls (toFixed2 (Number_toString E) (times_number conf hundred)))
                  (fst (handleDetectDisease E s))"
            by (simp add: handle_ok)
          then show ?thesis ..
        qed
      qed
    qed
  qed
qed

lemma handle_loading:
  "selectedImage s \<noteq> None \<Longrightarrow> isLoading (fst (handleDetectDisease E s)) = False"
  by (cases "try_block E (the (selectedImage s)) (resets s)")
     (auto simp: handleDetectDisease_def split: option.splits)


lemma example_texts_distinct:
  "map_of example_table ''<html>'' = None"
  "map_of example_table ''Internal Server Error'' = None"
  "map_of example_table ''Unauthorized'' = None"
  by (simp_all add: example_table_def denied_text_def
        chicken_text_def newcastle_text_def empty_class_text_def mistyped_text_def
        chicken_mistyped_text_def only_empty_class_text_def)

lemma received_answering [simp]: "received (answering net) example_state = Some net"
  by (simp add: answering_def)

lemma parse_answering [simp]: "JSON_parse (answering net) = table_parse example_table"
  by (simp add: answering_def)

lemma for_outputs_passed_over:
  "\<forall>p\<in>set pre. \<not> output_faults p \<and> accepted_entry p = None \<Longrightarrow>
   for_outputs (pre @ rest) = for_outputs rest"
  by (induction pre) (simp_all add: examine_eq)

lemma for_outputs_first_accepted:
  assumes "\<forall>p\<in>set pre. \<not> output_faults p \<and> accepted_entry p = None"
    and "accepted_entry output = Some found"
  shows "for_outputs (pre @ output # post) = Inr (Some found)"
proof -
  from assms(2) have "\<not> output_faults output"
    by (auto simp: accepted_entry_def output_faults_def entry_faults_def first_entry_def
        field_def split: option.splits jsval.splits if_splits)
  with assms show ?thesis
    by (simp add: for_outputs_passed_over examine_eq)
qed

lemma for_outputs_first_fault:
  assumes "\<forall>p\<in>set pre. \<not> output_faults p \<and> accepted_entry p = None"
    and "output_faults output"
  shows "for_outputs (pre @ output # post) = Inl (fault_of output)"
  using assms by (simp add: for_outputs_passed_over examine_eq)

lemma for_outputs_none:
  "\<forall>p\<in>set outputs. \<not> output_faults p \<and> accepted_entry p = None \<Longrightarrow>
   for_outputs outputs = Inr None"
  using for_outputs_passed_over [of outputs "[]"] by simp

lemma search_outputs:
  "field data ''outputs'' = Some (JArr outputs) \<Longrightarrow> search data = for_outputs outputs"
  by (cases data) (simp_all add: search_def field_def)

lemma for_outputs_Some_nonempty:
  "for_outputs outputs = Inr (Some (cls, conf)) \<Longrightarrow> cls \<noteq> []"
  by (induction outputs)
     (auto simp: examine_eq accepted_entry_def split: if_splits option.splits jsval.splits)

lemma search_Some_nonempty:
  "search data = Inr (Some (cls, conf)) \<Longrightarrow> cls \<noteq> []"
  by (auto simp: search_def dest: for_outputs_Some_nonempty
      split: sum.splits option.splits jsval.splits)

lemma example_rows:
  "table_parse example_table denied_text = Inr denied_value"
  "table_parse example_table chicken_text = Inr chicken_value"
  "table_parse example_table newcastle_text = Inr newcastle_value"
  "table_parse example_table empty_class_text = Inr empty_class_value"
  "table_parse example_table mistyped_text = Inr mistyped_value"
  "table_parse example_table chicken_mistyped_text = Inr chicken_mistyped_value"
  "table_parse example_table only_empty_class_text = Inr only_empty_class_value"
  by (simp_all add: table_parse_def example_table_def denied_text_def
        chicken_text_def newcastle_text_def empty_class_text_def mistyped_text_def
        chicken_mistyped_text_def only_empty_class_text_def)

lemma first_entry_prediction_output [simp]:
  "first_entry (prediction_output cls conf) =
     Some (JObj [(''class'', cls), (''confidence'', conf)])"
  by (simp add: first_entry_def prediction_output_def field_def)

lemma field_entry [simp]:
  "field (JObj [(''class'', cls), (''confidence'', conf)]) ''class'' = Some cls"
  "field (JObj [(''class'', cls), (''confidence'', conf)]) ''confidence'' = Some conf"
  by (simp_all add: field_def)

lemma field_outputs_data [simp]:
  "field (outputs_data outputs) ''outputs'' = Some (JArr outputs)"
  by (simp add: outputs_data_def field_def)

lemma ok_200 [simp]: "ok \<lparr>status = 200, body_text = b\<rparr>"
  by (simp add: ok_def)

lemma response_json_answering [simp]:
  "response_json (answering net) \<lparr>status = st, body_text = Inr t\<rparr> =
     table_parse example_table t"
  by (simp add: response_json_def)

lemma resets_raw [simp]: "(resets s)\<lparr>rawApiResponse := []\<rparr> = resets s"
  by (simp add: resets_def)

lemma handle_shape:
  assumes "selectedImage s = Some img"
  obtains (fail) e raw where
      "fst (handleDetectDisease E s) = failed E e ((resets s)\<lparr>rawApiResponse := raw\<rparr>)"
  | (result) raw shown where
      "fst (handleDetectDisease E s) =
         (resets s)\<lparr>rawApiResponse := raw, detectionResult := shown, isLoading := False\<rparr>"
      "shown \<noteq> []"
proof (cases rule: handle_cases [where s = s and E = E])
  case no_image
  with assms show ?thesis by simp
next
  case (encoding img' e)
  then have "fst (handleDetectDisease E s) = failed E e ((resets s)\<lparr>rawApiResponse := []\<rparr>)"
    by (simp add: handle_encoding_failure)
  then show ?thesis by (rule fail)
next
  case (transport e)
  then have "fst (handleDetectDisease E s) = failed E e ((resets s)\<lparr>rawApiResponse := []\<rparr>)"
    by (simp add: handle_transport_failure)
  then show ?thesis by (rule fail)
next
  case (response resp)
  show ?thesis
  proof (cases "ok resp")
    case False
    show ?thesis
    proof (cases "body_text resp")
      case (Inl e)
      with response False
      have "fst (handleDetectDisease E s) = failed E e ((resets s)\<lparr>rawApiResponse := []\<rparr>)"
        by (simp add: handle_not_ok)
      then show ?thesis by (rule fail)
    next
      case (Inr t)
      with response False show ?thesis
        by (auto simp: handle_not_ok intro: fail)
    qed
  next
    case True
    show ?thesis
    proof (cases "response_json E resp")
      case (Inl e)
      with response True
      have "fst (handleDetectDisease E s) = failed E e ((resets s)\<lparr>rawApiResponse := []\<rparr>)"
        by (simp add: handle_ok)
      then show ?thesis by (rule fail)
    next
      case (Inr data)
      show ?thesis
      proof (cases "search data")
        case (Inl e)
        with response True Inr show ?thesis
          by (auto simp: handle_ok intro: fail)
      next
        case found: (Inr r)
        show ?thesis
        proof (cases r)
          case None
          with response True Inr found show ?thesis
            by (auto simp: handle_ok intro: result)
        next
          case (Some p)
          obtain cls conf where "p = (cls, conf)" by (cases p)
          with Some response True Inr found show ?thesis
            by (auto simp: handle_ok intro: result)
        qed
      qed
    qed
  qed
qed

lemma handle_messages_exclusive:
  assumes "selectedImage s = Some img"
  shows "(errorMessage (fst (handleDetectDisease E s)) = []) \<noteq>
         (detectionResult (fst (handleDetectDisease E s)) = [])"
  by (cases rule: handle_shape [OF assms, where E = E]) simp_all

lemma handle_keeps_image:
  assumes "selectedImage s = Some img"
  shows "selectedImage (fst (handleDetectDisease E s)) = Some img"
  by (cases rule: handle_shape [OF assms, where E = E]) (simp_all add: assms)

lemma examine_prediction_output_string:
  "examine (prediction_output (JStr c) (JNum n)) =
     Inr (if c \<noteq> [] \<and> \<not> letter_case_variant ''chicken'' c then Some (c, n) else None)"
  by (simp add: examine_eq output_faults_def entry_faults_def accepted_entry_def)
     (simp add: prediction_output_def)

lemma examine_prediction_output_number:
  "examine (prediction_output (JNum c) (JNum n)) =
     (if is_zero c \<or> c = NaN then Inr None else Inl (TypeError (NotAFunction ''toLowerCase'')))"
  by (simp add: examine_eq output_faults_def entry_faults_def accepted_entry_def fault_of_def)
     (simp add: prediction_output_def)

lemma reachable_invariant:
  "reachable s \<Longrightarrow>
   (selectedImage s = None \<longrightarrow> detectionResult s = []) \<and>
   (errorMessage s = [] \<or> detectionResult s = [])"
proof (induction rule: reachable.induct)
  case initial
  then show ?case by (simp add: initial_state_def)
next
  case (selection s E f)
  then show ?case by (cases f) (simp_all add: handleImageChange_def)
next
  case (detection s E)
  show ?case
  proof (cases "selectedImage s")
    case None
    with detection.IH show ?thesis by (simp add: handle_no_image)
  next
    case (Some img)
    with handle_messages_exclusive [OF Some, of E] handle_keeps_image [OF Some, of E]
    show ?thesis by auto
  qed
qed

lemma upper_ascii_simps [simp]:
  "upper_ascii (CHR ''c'') = CHR ''C''" "upper_ascii (CHR ''h'') = CHR ''H''"
  "upper_ascii (CHR ''i'') = CHR ''I''" "upper_ascii (CHR ''k'') = CHR ''K''"
  "upper_ascii (CHR ''e'') = CHR ''E''" "upper_ascii (CHR ''n'') = CHR ''N''"
  by (simp_all add: upper_ascii_def char_of_eq_iff)

lemma handle_ignores_messages:
  assumes "selectedImage s = Some img"
  shows "fst (handleDetectDisease E (s\<lparr>errorMessage := a, detectionResult := b\<rparr>)) =
         fst (handleDetectDisease E s)"
proof -
  have "resets (s\<lparr>errorMessage := a, detectionResult := b\<rparr>) = resets s"
    by (simp add: resets_def)
  with assms show ?thesis by (simp add: handleDetectDisease_def)
qed

lemma handle_outcome_slots:
  assumes "selectedImage s = Some img \<and> selectedImage s2 = Some img"
    and "\<And>img. fileToBase64 E2 img = fileToBase64 E img"
    and "received E2 s2 = received E s"
    and "JSON_parse E2 = JSON_parse E"
    and "Number_toString E2 = Number_toString E"
    and "TypeError_message E2 = TypeError_message E"
  shows "errorMessage (fst (handleDetectDisease E2 s2)) =
           errorMessage (fst (handleDetectDisease E s)) \<and>
         detectionResult (fst (handleDetectDisease E2 s2)) =
           detectionResult (fst (handleDetectDisease E s))"
proof -
  have msg: "error_message E2 e = error_message E e" for e
  proof (cases e)
    case (Thrown m)
    then show ?thesis by (cases m) simp_all
  qed (simp_all add: assms(6))
  have json: "response_json E2 resp = response_json E resp" for resp
    by (cases "body_text resp") (simp_all add: response_json_def assms(4))
  show ?thesis
  proof (cases rule: handle_cases [where s = s and E = E])
    case no_image
    with assms(1) show ?thesis by simp
  next
    case (encoding img' e)
    with assms(1,2) msg show ?thesis by (simp add: handle_encoding_failure)
  next
    case (transport e)
    with assms(3) msg show ?thesis by (simp add: handle_transport_failure)
  next
    case (response resp)
    with assms(3) have r2: "received E2 s2 = Some (Inr resp)" by simp
    show ?thesis
    proof (cases "ok resp")
      case False
      with response r2 msg show ?thesis
        by (cases "body_text resp") (simp_all add: handle_not_ok api_error_def)
    next
      case True
      with response r2 msg json assms(5) show ?thesis
        by (simp add: handle_ok split: sum.split option.split prod.split)
    qed
  qed
qed

lemma stringify_answering [simp]:
  "JSON_stringify (answering net) = table_stringify example_table"
  by (simp add: answering_def)

lemma example_pretty:
  "table_stringify example_table chicken_value 2 = chicken_pretty"
  by (simp add: table_stringify_def example_table_def denied_value_def chicken_value_def
      outputs_data_def)

lemma unprinting_simps [simp]:
  "fileToBase64 (unprinting E) f = fileToBase64 E f"
  "JSON_parse (unprinting E) = JSON_parse E"
  "Number_toString (unprinting E) = Number_toString E"
  "TypeError_message (unprinting E) = TypeError_message E"
  "fetch (unprinting E) = fetch E"
  by (simp_all add: unprinting_def fileToBase64_def)

lemma fetch_example_env [simp]: "fetch (example_env ev net tbl) url req = net"
  by (simp add: example_env_def)

lemma received_unprinting_answering [simp]:
  "received (unprinting (answering net)) (example_state\<lparr>rawApiResponse := r\<rparr>) = Some net"
  by (simp add: received_def example_state_def answering_def)

lemma selectedImage_example_state [simp]:
  "selectedImage example_state = Some example_image"
  by (simp add: example_state_def)

lemma chicken_not_found:
  "displays NoPredictionFound
     (fst (handleDetectDisease (answering (responding 200 chicken_text)) example_state))"
  by (simp add: handle_ok responding_def example_rows search_outputs chicken_value_def
      examine_prediction_output_string letter_case_variant_def)

lemma messages_answering [simp]:
  "TypeError_message (answering net) = example_TypeError_message"
  "Number_toString (answering net) = (\<lambda>x. ''1e+21'')"
  by (simp_all add: answering_def example_env_def)

lemma accepted_entry_no_fault:
  "accepted_entry output = Some found \<Longrightarrow> \<not> output_faults output"
  by (auto simp: accepted_entry_def output_faults_def entry_faults_def first_entry_def
      field_def split: option.splits jsval.splits if_splits)

lemma for_outputs_Some_iff:
  "for_outputs outputs = Inr (Some found) \<longleftrightarrow>
   (\<exists>pre out1 post. outputs = pre @ out1 # post \<and>
      (\<forall>p\<in>set pre. \<not> output_faults p \<and> accepted_entry p = None) \<and>
      accepted_entry out1 = Some found)"
proof
  assume "for_outputs outputs = Inr (Some found)"
  then show "\<exists>pre out1 post. outputs = pre @ out1 # post \<and>
      (\<forall>p\<in>set pre. \<not> output_faults p \<and> accepted_entry p = None) \<and>
      accepted_entry out1 = Some found"
  proof (induction outputs)
    case Nil
    then show ?case by simp
  next
    case (Cons o1 outputs)
    show ?case
    proof (cases "accepted_entry o1")
      case None
      with Cons.prems have nf: "\<not> output_faults o1"
        and rest: "for_outputs outputs = Inr (Some found)"
        by (auto simp: examine_eq split: if_splits)
      from Cons.IH [OF rest] obtain pre out1 post where
        "outputs = pre @ out1 # post"
        "\<forall>p\<in>set pre. \<not> output_faults p \<and> accepted_entry p = None"
        "accepted_entry out1 = Some found"
        by blast
      with None nf have "o1 # outputs = (o1 # pre) @ out1 # post \<and>
        (\<forall>p\<in>set (o1 # pre). \<not> output_faults p \<and> accepted_entry p = None) \<and>
        accepted_entry out1 = Some found"
        by simp
      then show ?thesis by blast
    next
      case (Some f)
      with Cons.prems have "f = found"
        by (auto simp: examine_eq split: if_splits)
      with Some have "o1 # outputs = [] @ o1 # outputs \<and>
        (\<forall>p\<in>set []. \<not> output_faults p \<and> accepted_entry p = None) \<and>
        accepted_entry o1 = Some found"
        by simp
      then show ?thesis by blast
    qed
  qed
next
  assume "\<exists>pre out1 post. outputs = pre @ out1 # post \<and>
      (\<forall>p\<in>set pre. \<not> output_faults p \<and> accepted_entry p = None) \<and>
      accepted_entry out1 = Some found"
  then show "for_outputs outputs = Inr (Some found)"
    using for_outputs_first_accepted by blast
qed

lemma for_outputs_chicken_first:
  assumes "first_entry out1 = Some entry" "field entry ''class'' = Some (JStr cls)"
    "letter_case_variant ''chicken'' cls"
    "\<forall>p\<in>set others. \<not> output_faults p \<and> accepted_entry p = None"
  shows "for_outputs (out1 # others) = Inr None"
proof -
  have "\<not> output_faults out1 \<and> accepted_entry out1 = None"
    using assms(1-3)
    by (auto simp: output_faults_def entry_faults_def accepted_entry_def first_entry_def
        field_def split: option.splits jsval.splits)
  with assms(4) show ?thesis
    by (intro for_outputs_none) simp
qed

lemma search_no_outputs:
  "(case field data ''outputs'' of Some (JArr outputs) \<Rightarrow> outputs = [] | _ \<Rightarrow> True) \<Longrightarrow>
   data \<noteq> JNull \<Longrightarrow> search data = Inr None"
  by (auto simp: search_def get_field split: option.splits jsval.splits)

lemma search_null:
  "search JNull = Inl (TypeError (PropertyOfNull ''outputs''))"
  by (simp add: search_def)

lemma bit_length_numeral [simp]:
  "bit_length 0 = 0"
  "bit_length (numeral k) = Suc (bit_length (numeral k div 2))"
  by (simp_all add: bit_length.simps)

lemma bit_length_1 [simp]: "bit_length (Suc 0) = 1"
  by (simp add: bit_length.simps)


















subsection \<open>The precondition\<close>

text \<open>
  Claim C5. With no image selected the handler only sets the error message to the
  NoImageSelected text and returns: it performs no effect (the file is not read, nothing
  is posted) and leaves every other slot, the loading flag included, as it was.
\<close>

theorem no_image_returns_at_once:
  "selectedImage s = None \<Longrightarrow>
   handleDetectDisease E s = (s\<lparr>errorMessage := no_image_message\<rparr>, []) \<and>
   displays NoImageSelected (fst (handleDetectDisease E s)) \<and>
   snd (handleDetectDisease E s) = [] \<and>
   received E s = None"
  by (simp add: handleDetectDisease_def received_def)

theorem no_image_returns_at_once_witness:
  "selectedImage stale_state = None \<and>
   handleDetectDisease (example_env example_load (responding 200 ''{}'') []) stale_state =
     (stale_state\<lparr>errorMessage := ''Please select an image first.''\<rparr>, [])"
  using no_image_returns_at_once [of stale_state "example_env example_load (responding 200 ''{}'') []"]
  by (simp add: stale_state_def no_image_message_def)

subsection \<open>Status 401\<close>

text \<open>
  Claim C6, amended. A response with status 401 whose body text \<open>errorText\<close> is read
  ends in RequestFailed with the reason \<open>API error: 401 Unauthorized. Check API
  key/workflow access.\<close>: the error message reads \<open>Failed to detect disease: API error:
  401 Unauthorized. Check API key/workflow access..\<close> and no result is shown. The
  diagnostic slot holds the body, pretty-printed when it parses as JSON and as the raw
  text otherwise.
\<close>

theorem status_401_unauthorized:
  "received E s = Some (Inr resp) \<Longrightarrow> status resp = 401 \<Longrightarrow>
   body_text resp = Inr errorText \<Longrightarrow>
   displays (RequestFailed ''API error: 401 Unauthorized. Check API key/workflow access.'')
     (fst (handleDetectDisease E s)) \<and>
   errorMessage (fst (handleDetectDisease E s)) =
     ''Failed to detect disease: API error: 401 Unauthorized. Check API key/workflow access..'' \<and>
   detectionResult (fst (handleDetectDisease E s)) = [] \<and>
   rawApiResponse (fst (handleDetectDisease E s)) =
     (case JSON_parse E errorText of
        Inr parsed \<Rightarrow> JSON_stringify E parsed 2
      | Inl e \<Rightarrow> errorText)"
  by (simp add: handle_not_ok ok_def api_error_def api_error_message_def failed_message_def)

theorem status_401_unauthorized_witness:
  "received (answering (responding 401 ''Unauthorized'')) example_state =
     Some (Inr \<lparr>status = 401, body_text = Inr ''Unauthorized''\<rparr>) \<and>
   displays (RequestFailed ''API error: 401 Unauthorized. Check API key/workflow access.'')
     (fst (handleDetectDisease (answering (responding 401 ''Unauthorized'')) example_state)) \<and>
   errorMessage
     (fst (handleDetectDisease (answering (responding 401 ''Unauthorized'')) example_state)) =
     ''Failed to detect disease: API error: 401 Unauthorized. Check API key/workflow access..'' \<and>
   rawApiResponse
     (fst (handleDetectDisease (answering (responding 401 ''Unauthorized'')) example_state)) =
     ''Unauthorized'' \<and>
   rawApiResponse
     (fst (handleDetectDisease (answering (responding 401 denied_text)) example_state)) =
     denied_pretty"
proof -
  have r: "received (answering (responding 401 t)) example_state =
      Some (Inr \<lparr>status = 401, body_text = Inr t\<rparr>)" for t
    by (simp add: responding_def)
  have p1: "table_parse example_table ''Unauthorized'' =
      Inl (Thrown (Some ''Unexpected token in JSON''))"
    by (simp add: table_parse_def example_texts_distinct)
  have p2: "table_parse example_table denied_text = Inr denied_value"
    by (simp add: table_parse_def example_table_def)
  have p3: "table_stringify example_table denied_value 2 = denied_pretty"
    by (simp add: table_stringify_def example_table_def)
  show ?thesis
    using status_401_unauthorized [OF r, of "''Unauthorized''" "''Unauthorized''"]
      status_401_unauthorized [OF r, of denied_text denied_text]
    by (simp add: responding_def p1 p2 p3 failed_message_def)
qed

text \<open>
  A 401 response whose body cannot be read: \<open>response.text()\<close> of line 206 rejects before
  the status is looked at, so the reason shown is the read error and nothing is captured.
\<close>

theorem status_401_unread_body_counterexample:
  "received (answering (unread 401)) example_state =
     Some (Inr \<lparr>status = 401, body_text = Inl (Thrown (Some ''network error''))\<rparr>) \<and>
   errorMessage (fst (handleDetectDisease (answering (unread 401)) example_state)) =
     ''Failed to detect disease: network error.'' \<and>
   \<not> displays (RequestFailed ''API error: 401 Unauthorized. Check API key/workflow access.'')
     (fst (handleDetectDisease (answering (unread 401)) example_state)) \<and>
   rawApiResponse (fst (handleDetectDisease (answering (unread 401)) example_state)) = []"
proof -
  have r: "received (answering (unread 401)) example_state =
     Some (Inr \<lparr>status = 401, body_text = Inl (Thrown (Some ''network error''))\<rparr>)"
    by (simp add: unread_def)
  have h: "fst (handleDetectDisease (answering (unread 401)) example_state) =
     failed (answering (unread 401)) (Thrown (Some ''network error'')) (resets example_state)"
    using handle_not_ok [OF r] by (simp add: ok_def)
  have shown: "errorMessage (fst (handleDetectDisease (answering (unread 401)) example_state)) =
     ''Failed to detect disease: network error.''"
    by (simp add: h failed_message_def)
  have other: "\<not> displays
     (RequestFailed ''API error: 401 Unauthorized. Check API key/workflow access.'')
     (fst (handleDetectDisease (answering (unread 401)) example_state))"
    by (simp add: h)
  have slot: "rawApiResponse (fst (handleDetectDisease (answering (unread 401)) example_state)) = []"
    by (simp add: h)
  from r shown other slot show ?thesis by blast
qed

subsection \<open>Every invocation ends in one outcome\<close>

text \<open>
  Whatever the collaborators do, the handler returns a state that displays an outcome, and
  every outcome it displays is of the same variant. No image gives NoImageSelected. A
  rejected file read, a transport failure, a status outside 200 to 299 (with the body read
  or not), a body of a success status that is not valid JSON, and a TypeError raised by the
  search each give RequestFailed, with the \<open>message\<close> of what was thrown as the reason: the
  error message is \<open>Failed to detect disease: \<close>, that message and a full stop. The
  loading flag is cleared at the end.
\<close>

lemma every_invocation_ends_in_one_outcome:
  "(\<exists>out. displays out (fst (handleDetectDisease E s)) \<and>
      (\<forall>out'. displays out' (fst (handleDetectDisease E s)) \<longrightarrow> kind_of out' = kind_of out)) \<and>
   (selectedImage s = None \<longrightarrow> displays NoImageSelected (fst (handleDetectDisease E s))) \<and>
   (selectedImage s = Some img \<and> fileToBase64 E img = Inl e1 \<longrightarrow>
      displays (RequestFailed (error_message E e1)) (fst (handleDetectDisease E s)) \<and>
      errorMessage (fst (handleDetectDisease E s)) =
        ''Failed to detect disease: '' @ error_message E e1 @ ''.'') \<and>
   (received E s = Some (Inl e2) \<longrightarrow>
      displays (RequestFailed (error_message E e2)) (fst (handleDetectDisease E s)) \<and>
      errorMessage (fst (handleDetectDisease E s)) =
        ''Failed to detect disease: '' @ error_message E e2 @ ''.'') \<and>
   (received E s = Some (Inr resp) \<and> \<not> ok resp \<and> body_text resp = Inr errorText \<longrightarrow>
      displays (RequestFailed (api_error_message (status resp) errorText))
        (fst (handleDetectDisease E s)) \<and>
      errorMessage (fst (handleDetectDisease E s)) =
        ''Failed to detect disease: '' @ api_error_message (status resp) errorText @ ''.'') \<and>
   (received E s = Some (Inr resp) \<and> \<not> ok resp \<and> body_text resp = Inl e3 \<longrightarrow>
      displays (RequestFailed (error_message E e3)) (fst (handleDetectDisease E s)) \<and>
      errorMessage (fst (handleDetectDisease E s)) =
        ''Failed to detect disease: '' @ error_message E e3 @ ''.'') \<and>
   (received E s = Some (Inr resp) \<and> ok resp \<and> response_json E resp = Inl e4 \<longrightarrow>
      displays (RequestFailed (error_message E e4)) (fst (handleDetectDisease E s)) \<and>
      errorMessage (fst (handleDetectDisease E s)) =
        ''Failed to detect disease: '' @ error_message E e4 @ ''.'') \<and>
   (received E s = Some (Inr resp) \<and> ok resp \<and> response_json E resp = Inr data \<and>
    search data = Inl e5 \<longrightarrow>
      displays (RequestFailed (error_message E e5)) (fst (handleDetectDisease E s)) \<and>
      errorMessage (fst (handleDetectDisease E s)) =
        ''Failed to detect disease: '' @ error_message E e5 @ ''.'') \<and>
   (selectedImage s \<noteq> None \<longrightarrow> isLoading (fst (handleDetectDisease E s)) = False)"
proof -
  obtain out where "displays out (fst (handleDetectDisease E s))"
    using handle_outcome by blast
  then have one: "\<exists>out. displays out (fst (handleDetectDisease E s)) \<and>
      (\<forall>out'. displays out' (fst (handleDetectDisease E s)) \<longrightarrow> kind_of out' = kind_of out)"
    using displays_kind_unique by blast
  show ?thesis
    using one
    by (simp add: handle_no_image handle_encoding_failure handle_transport_failure
        handle_not_ok handle_ok handle_loading api_error_def)
       (simp add: failed_message_def)
qed

text \<open>
  Claim C2 at a file whose read fails. Every thrown value is to be shown as RequestFailed
  with a human-readable reason. The promise of \<open>fileToBase64\<close> rejects with the error event
  of the reader (line 167), which has no \<open>message\<close>; the catch of line 240 interpolates
  \<open>error.message\<close>, and the handler shows \<open>Failed to detect disease: undefined.\<close>, a text
  that gives no reason.
\<close>

theorem unreadable_file_shows_undefined:
  "selectedImage example_state = Some example_image \<and>
   readAsDataURL unreadable example_image = ReadError \<and>
   fileToBase64 unreadable example_image = Inl (Thrown None) \<and>
   errorMessage (fst (handleDetectDisease unreadable example_state)) =
     ''Failed to detect disease: undefined.'' \<and>
   detectionResult (fst (handleDetectDisease unreadable example_state)) = [] \<and>
   rawApiResponse (fst (handleDetectDisease unreadable example_state)) = [] \<and>
   isLoading (fst (handleDetectDisease unreadable example_state)) = False"
proof -
  have rd: "fileToBase64 unreadable example_image = Inl (Thrown None)"
    by (simp add: unreadable_def fileToBase64_def example_env_def)
  have ev: "readAsDataURL unreadable example_image = ReadError"
    by (simp add: unreadable_def example_env_def)
  show ?thesis
    by (simp add: rd ev handle_encoding_failure [OF selectedImage_example_state rd]
        failed_message_def)
qed

subsection \<open>The empty class\<close>

text \<open>
  Claim C10. A first prediction entry whose class is the empty string and whose confidence
  is a number is passed over by the search (the loop goes on to the next output, and a
  response that holds only such entries ends in NoPredictionFound), and no accepted
  prediction, hence no Success, carries an empty class.
\<close>

theorem empty_class_is_rejected:
  "(first_entry output = Some entry \<and> field entry ''class'' = Some (JStr []) \<and>
    field entry ''confidence'' = Some (JNum conf) \<longrightarrow>
      examine output = Inr None \<and> for_outputs (output # outputs) = for_outputs outputs) \<and>
   (search data = Inr (Some (cls, conf')) \<longrightarrow> cls \<noteq> []) \<and>
   (received E s = Some (Inr resp) \<and> ok resp \<and> response_json E resp = Inr data \<and>
    field data ''outputs'' = Some (JArr [output]) \<and>
    first_entry output = Some entry \<and> field entry ''class'' = Some (JStr []) \<and>
    field entry ''confidence'' = Some (JNum conf) \<longrightarrow>
      displays NoPredictionFound (fst (handleDetectDisease E s)))"
proof -
  have rej: "examine output = Inr None"
    if "first_entry output = Some entry" "field entry ''class'' = Some (JStr [])"
      "field entry ''confidence'' = Some (JNum conf)"
    using that
    by (auto simp: examine_eq output_faults_def entry_faults_def accepted_entry_def
        first_entry_def field_def split: option.splits jsval.splits)
  show ?thesis
    using rej search_Some_nonempty [of data cls conf']
    by (auto simp: handle_ok search_outputs)
qed

theorem empty_class_is_rejected_witness:
  "first_entry (prediction_output (JStr []) (JNum n_0_5)) =
     Some (JObj [(''class'', JStr []), (''confidence'', JNum n_0_5)]) \<and>
   examine (prediction_output (JStr []) (JNum n_0_5)) = Inr None \<and>
   received (answering (responding 200 only_empty_class_text)) example_state =
     Some (Inr \<lparr>status = 200, body_text = Inr only_empty_class_text\<rparr>) \<and>
   displays NoPredictionFound
     (fst (handleDetectDisease (answering (responding 200 only_empty_class_text))
        example_state))"
  using empty_class_is_rejected
    [of "prediction_output (JStr []) (JNum n_0_5)"
      "JObj [(''class'', JStr []), (''confidence'', JNum n_0_5)]" n_0_5 "[]"
      only_empty_class_value _ _ "answering (responding 200 only_empty_class_text)"
      example_state "\<lparr>status = 200, body_text = Inr only_empty_class_text\<rparr>"]
  by (simp add: responding_def example_rows) (simp add: only_empty_class_value_def)

subsection \<open>One message at a time\<close>

text \<open>
  Claim C4. In every state the component reaches from its initial state by file selections
  and invocations, an invocation leaves exactly one of the error message and the detection
  result non-empty, whatever its outcome. With no image selected that message is
  \<open>Please select an image first.\<close> and the result slot is empty. With an image selected,
  in any state, exactly one message is non-empty and the state after the invocation does
  not depend on the messages shown before: the resets of lines 182 and 183 replace them.
\<close>

theorem one_message_at_a_time:
  "(reachable s \<longrightarrow>
      (errorMessage (fst (handleDetectDisease E s)) = []) \<noteq>
      (detectionResult (fst (handleDetectDisease E s)) = [])) \<and>
   (reachable s \<and> selectedImage s = None \<longrightarrow>
      errorMessage (fst (handleDetectDisease E s)) = ''Please select an image first.'' \<and>
      detectionResult (fst (handleDetectDisease E s)) = []) \<and>
   (selectedImage s = Some img \<longrightarrow>
      (errorMessage (fst (handleDetectDisease E s)) = []) \<noteq>
      (detectionResult (fst (handleDetectDisease E s)) = []) \<and>
      fst (handleDetectDisease E (s\<lparr>errorMessage := a, detectionResult := b\<rparr>)) =
      fst (handleDetectDisease E s))"
proof -
  have none: "errorMessage (fst (handleDetectDisease E s)) = ''Please select an image first.'' \<and>
      detectionResult (fst (handleDetectDisease E s)) = []"
    if "reachable s" "selectedImage s = None"
    using reachable_invariant [OF that(1)] that(2)
    by (simp add: handle_no_image no_image_message_def)
  have "(errorMessage (fst (handleDetectDisease E s)) = []) \<noteq>
      (detectionResult (fst (handleDetectDisease E s)) = [])" if "reachable s"
  proof (cases "selectedImage s")
    case None
    with none [OF that] show ?thesis by simp
  next
    case (Some img')
    then show ?thesis by (rule handle_messages_exclusive)
  qed
  with none show ?thesis
    by (simp add: handle_messages_exclusive handle_ignores_messages)
qed

theorem one_message_at_a_time_witness:
  "reachable (handleImageChange (answering (responding 200 chicken_text))
     (Some example_image) initial_state) \<and>
   errorMessage (fst (handleDetectDisease (answering (responding 200 chicken_text))
     (handleImageChange (answering (responding 200 chicken_text))
        (Some example_image) initial_state))) = [] \<and>
   detectionResult (fst (handleDetectDisease (answering (responding 200 chicken_text))
     (handleImageChange (answering (responding 200 chicken_text))
        (Some example_image) initial_state))) = no_prediction_message \<and>
   reachable (handleImageChange (answering (responding 200 chicken_text)) None
     (fst (handleDetectDisease (answering (responding 200 chicken_text))
       (handleImageChange (answering (responding 200 chicken_text))
          (Some example_image) initial_state)))) \<and>
   errorMessage (fst (handleDetectDisease (answering (responding 200 chicken_text))
     (handleImageChange (answering (responding 200 chicken_text)) None
       (fst (handleDetectDisease (answering (responding 200 chicken_text))
         (handleImageChange (answering (responding 200 chicken_text))
            (Some example_image) initial_state)))))) = ''Please select an image first.'' \<and>
   detectionResult (fst (handleDetectDisease (answering (responding 200 chicken_text))
     (handleImageChange (answering (responding 200 chicken_text)) None
       (fst (handleDetectDisease (answering (responding 200 chicken_text))
         (handleImageChange (answering (responding 200 chicken_text))
            (Some example_image) initial_state)))))) = []"
proof -
  define E where "E = answering (responding 200 chicken_text)"
  define s1 where "s1 = handleImageChange E (Some example_image) initial_state"
  define s2 where "s2 = fst (handleDetectDisease E s1)"
  define s3 where "s3 = handleImageChange E None s2"
  have r1: "reachable s1"
    unfolding s1_def by (rule reachable.selection) (rule reachable.initial)
  have r3: "reachable s3"
    unfolding s3_def s2_def by (intro reachable.selection reachable.detection r1)
  have img: "selectedImage s1 = Some example_image"
    by (simp add: s1_def handleImageChange_def)
  have none: "selectedImage s3 = None"
    by (simp add: s3_def handleImageChange_def)
  have rec: "received E s1 = Some (responding 200 chicken_text)"
    using img by (simp add: received_def E_def answering_def)
  have shown: "displays NoPredictionFound (fst (handleDetectDisease E s1))"
    using rec
    by (simp add: handle_ok responding_def E_def example_rows search_outputs chicken_value_def
        examine_prediction_output_string letter_case_variant_def)
  from one_message_at_a_time [of s1 E example_image] r1 shown
  have first: "errorMessage (fst (handleDetectDisease E s1)) = [] \<and>
      detectionResult (fst (handleDetectDisease E s1)) = no_prediction_message"
    by simp
  from one_message_at_a_time [of s3 E] r3 none
  have second: "errorMessage (fst (handleDetectDisease E s3)) = ''Please select an image first.'' \<and>
      detectionResult (fst (handleDetectDisease E s3)) = []"
    by simp
  from r1 r3 first second show ?thesis
    unfolding s3_def s2_def s1_def E_def by simp
qed

subsection \<open>The diagnostic slot\<close>

text \<open>
  Where the handler writes the diagnostic slot. For a status outside 200 to 299 whose body
  is read, the slot holds the body, pretty-printed if it parses as JSON and as the raw
  text otherwise; for a success status whose body parses as JSON it holds the
  pretty-printed value, whether the search then ends in Success, in NoPredictionFound or
  in a TypeError. When the encoding or the transport fails there is no body, and the slot
  is empty. The two message slots do not depend on what the slot held before or on how
  \<open>JSON.stringify\<close> renders: two invocations with the same image selected that agree on
  the reader, on what the network returned, on \<open>JSON.parse\<close>, on \<open>Number::toString\<close> and
  on the TypeError texts show the same messages.
\<close>

lemma diagnostic_slot:
  "(received E s = Some (Inr resp) \<and> \<not> ok resp \<and> body_text resp = Inr errorText \<longrightarrow>
      rawApiResponse (fst (handleDetectDisease E s)) =
        (case JSON_parse E errorText of
           Inr parsed \<Rightarrow> JSON_stringify E parsed 2
         | Inl e \<Rightarrow> errorText)) \<and>
   (received E s = Some (Inr resp) \<and> ok resp \<and> response_json E resp = Inr data \<longrightarrow>
      rawApiResponse (fst (handleDetectDisease E s)) = JSON_stringify E data 2) \<and>
   (received E s = Some (Inr resp) \<and> ok resp \<and> response_json E resp = Inl e0 \<longrightarrow>
      rawApiResponse (fst (handleDetectDisease E s)) = []) \<and>
   (selectedImage s = Some img \<and> fileToBase64 E img = Inl e1 \<longrightarrow>
      rawApiResponse (fst (handleDetectDisease E s)) = []) \<and>
   (received E s = Some (Inl e2) \<longrightarrow>
      rawApiResponse (fst (handleDetectDisease E s)) = []) \<and>
   (selectedImage s = Some img \<and> selectedImage s2 = Some img \<and>
    (\<forall>f. fileToBase64 E2 f = fileToBase64 E f) \<and>
    received E2 s2 = received E s \<and> JSON_parse E2 = JSON_parse E \<and>
    Number_toString E2 = Number_toString E \<and> TypeError_message E2 = TypeError_message E \<longrightarrow>
      errorMessage (fst (handleDetectDisease E2 s2)) =
        errorMessage (fst (handleDetectDisease E s)) \<and>
      detectionResult (fst (handleDetectDisease E2 s2)) =
        detectionResult (fst (handleDetectDisease E s)))"
proof -
  have "rawApiResponse (fst (handleDetectDisease E s)) = JSON_stringify E data 2"
    if "received E s = Some (Inr resp)" "ok resp" "response_json E resp = Inr data"
    using that by (simp add: handle_ok split: sum.split option.split prod.split)
  then show ?thesis
    using handle_outcome_slots [of s img s2 E2 E]
    by (simp add: handle_ok handle_not_ok handle_encoding_failure handle_transport_failure)
qed

text \<open>
  Claim C3 at a success status whose body is not JSON. The raw body is to be kept in the
  diagnostic slot whatever the outcome, a parse failure of a success-status body included.
  For status 200 and the body \<open><html>\<close>, \<open>response.json()\<close> of line 214 rejects before line
  216 writes the slot: the handler shows RequestFailed and the slot is empty. The path of
  a status that is not ok does keep the same body (line 207): for status 500 the slot
  holds \<open><html>\<close>.
\<close>

theorem unparsed_success_body_is_lost:
  "received (answering (responding 200 ''<html>'')) example_state =
     Some (Inr \<lparr>status = 200, body_text = Inr ''<html>''\<rparr>) \<and>
   JSON_parse (answering (responding 200 ''<html>'')) ''<html>'' =
     Inl (Thrown (Some ''Unexpected token in JSON'')) \<and>
   errorMessage (fst (handleDetectDisease (answering (responding 200 ''<html>'')) example_state)) =
     ''Failed to detect disease: Unexpected token in JSON.'' \<and>
   rawApiResponse (fst (handleDetectDisease (answering (responding 200 ''<html>''))
     example_state)) = [] \<and>
   rawApiResponse (fst (handleDetectDisease (answering (responding 500 ''<html>''))
     example_state)) = ''<html>''"
proof -
  have p: "table_parse example_table ''<html>'' = Inl (Thrown (Some ''Unexpected token in JSON''))"
    by (simp add: table_parse_def example_texts_distinct)
  have r: "received (answering (responding st ''<html>'')) example_state =
     Some (Inr \<lparr>status = st, body_text = Inr ''<html>''\<rparr>)" for st
    by (simp add: responding_def)
  have parse: "JSON_parse (answering (responding 200 ''<html>'')) ''<html>'' =
     Inl (Thrown (Some ''Unexpected token in JSON''))"
    by (simp add: p)
  have h200: "fst (handleDetectDisease (answering (responding 200 ''<html>'')) example_state) =
     failed (answering (responding 200 ''<html>'')) (Thrown (Some ''Unexpected token in JSON''))
       (resets example_state)"
    using handle_ok [OF r [of 200]] by (simp add: p)
  have h500: "rawApiResponse
     (fst (handleDetectDisease (answering (responding 500 ''<html>'')) example_state)) = ''<html>''"
    using handle_not_ok [OF r [of 500]] by (simp add: ok_def p)
  have shown: "errorMessage
     (fst (handleDetectDisease (answering (responding 200 ''<html>'')) example_state)) =
     ''Failed to detect disease: Unexpected token in JSON.''"
    by (simp add: h200 failed_message_def)
  have slot: "rawApiResponse
     (fst (handleDetectDisease (answering (responding 200 ''<html>'')) example_state)) = []"
    by (simp add: h200)
  from r [of 200] parse shown slot h500 show ?thesis by blast
qed

subsection \<open>First match\<close>

text \<open>
  Claim C1, amended. The search walks \<open>outputs\<close> in order and looks only at the first
  entry of each output's prediction list. It accepts the first entry whose class is a
  string that is not empty, whose confidence is a number and whose class is not
  \<open>chicken\<close> in any letter case, provided every output before it is passed over without
  a TypeError; what comes after the accepted entry plays no part, whatever its
  confidence. Conversely every accepted prediction is such a first entry, and the handler
  then shows it as the Success outcome.
\<close>

theorem first_match:
  "(field data ''outputs'' = Some (JArr (pre @ output # post)) \<and>
    (\<forall>p\<in>set pre. \<not> output_faults p \<and> accepted_entry p = None) \<and>
    accepted_entry output = Some (cls, conf) \<longrightarrow>
      search data = Inr (Some (cls, conf))) \<and>
   (field data ''outputs'' = Some (JArr outputs) \<and> search data = Inr (Some found) \<longrightarrow>
      (\<exists>pre' output' post'. outputs = pre' @ output' # post' \<and>
         (\<forall>p\<in>set pre'. \<not> output_faults p \<and> accepted_entry p = None) \<and>
         accepted_entry output' = Some found)) \<and>
   (received E s = Some (Inr resp) \<and> ok resp \<and> response_json E resp = Inr data \<and>
    search data = Inr (Some (cls, conf)) \<longrightarrow>
      displays (Success cls (toFixed2 (Number_toString E) (times_number conf hundred)))
        (fst (handleDetectDisease E s)))"
  using for_outputs_Some_iff [of outputs found]
  by (auto simp: search_outputs for_outputs_first_accepted handle_ok)

theorem first_match_witness:
  "field newcastle_value ''outputs'' =
     Some (JArr ([prediction_output (JStr ''Chicken'') (JNum n_0_9)] @
       prediction_output (JStr ''Newcastle Disease'') (JNum n_0_8734) # [])) \<and>
   accepted_entry (prediction_output (JStr ''Chicken'') (JNum n_0_9)) = None \<and>
   accepted_entry (prediction_output (JStr ''Newcastle Disease'') (JNum n_0_8734)) =
     Some (''Newcastle Disease'', n_0_8734) \<and>
   search newcastle_value = Inr (Some (''Newcastle Disease'', n_0_8734))"
proof -
  have a: "accepted_entry (prediction_output (JStr ''Chicken'') (JNum n_0_9)) = None"
    by (simp add: accepted_entry_def letter_case_variant_def)
  have f: "\<not> output_faults (prediction_output (JStr ''Chicken'') (JNum n_0_9))"
    by (simp add: output_faults_def entry_faults_def) (simp add: prediction_output_def)
  have b: "accepted_entry (prediction_output (JStr ''Newcastle Disease'') (JNum n_0_8734)) =
     Some (''Newcastle Disease'', n_0_8734)"
    by (simp add: accepted_entry_def letter_case_variant_def)
  show ?thesis
    using first_match
      [of newcastle_value "[prediction_output (JStr ''Chicken'') (JNum n_0_9)]"
        "prediction_output (JStr ''Newcastle Disease'') (JNum n_0_8734)" "[]"
        "''Newcastle Disease''" n_0_8734]
    by (simp add: a b f newcastle_value_def)
qed

theorem first_match_counterexample:
  "first_entry (prediction_output (JStr []) (JNum n_0_5)) =
     Some (JObj [(''class'', JStr []), (''confidence'', JNum n_0_5)]) \<and>
   qualifies (JObj [(''class'', JStr []), (''confidence'', JNum n_0_5)]) \<and>
   search (outputs_data [prediction_output (JStr []) (JNum n_0_5),
                         prediction_output (JStr ''Coccidiosis'') (JNum n_0_9)]) =
     Inr (Some (''Coccidiosis'', n_0_9))"
  by (simp add: qualifies_def letter_case_variant_def search_outputs
      examine_prediction_output_string)

subsection \<open>A class that is not a string\<close>

text \<open>
  Claim C7 at a response the code takes to RequestFailed. The first output's entry is the
  bird, the second output's entry has the number 7 as its class beside a numeric
  confidence, so no output has a qualifying first entry; the test of line 223 calls
  \<open>toLowerCase\<close> on the number, the TypeError is caught, and the handler shows a failure
  where the claim expects NoPredictionFound.
\<close>

theorem chicken_then_mistyped_fails:
  "field chicken_mistyped_value ''outputs'' =
     Some (JArr [prediction_output (JStr ''Chicken'') (JNum n_0_9),
                 prediction_output (JNum n_7) (JNum n_0_9)]) \<and>
   letter_case_variant ''chicken'' ''Chicken'' \<and>
   \<not> qualifies (JObj [(''class'', JNum n_7), (''confidence'', JNum n_0_9)]) \<and>
   search chicken_mistyped_value = Inl (TypeError (NotAFunction ''toLowerCase'')) \<and>
   displays (RequestFailed ''toLowerCase is not a function'')
     (fst (handleDetectDisease (answering (responding 200 chicken_mistyped_text))
        example_state)) \<and>
   \<not> displays NoPredictionFound
     (fst (handleDetectDisease (answering (responding 200 chicken_mistyped_text))
        example_state))"
  by (simp add: chicken_mistyped_value_def qualifies_def letter_case_variant_def
      search_outputs examine_prediction_output_string examine_prediction_output_number
      n_7_def handle_ok responding_def example_rows example_TypeError_message_def)

text \<open>
  Claim C9 at a response the code takes to RequestFailed. The only entry has the number 7
  as its class, a mistyped field; the test of line 223 calls \<open>toLowerCase\<close> on it, and the
  handler shows a failure where the claim expects NoPredictionFound.
\<close>

theorem mistyped_class_fails:
  "field mistyped_value ''outputs'' =
     Some (JArr [prediction_output (JNum n_7) (JNum n_0_9)]) \<and>
   search mistyped_value = Inl (TypeError (NotAFunction ''toLowerCase'')) \<and>
   displays (RequestFailed ''toLowerCase is not a function'')
     (fst (handleDetectDisease (answering (responding 200 mistyped_text)) example_state)) \<and>
   \<not> displays NoPredictionFound
     (fst (handleDetectDisease (answering (responding 200 mistyped_text)) example_state))"
  by (simp add: mistyped_value_def search_outputs examine_prediction_output_number
      n_7_def handle_ok responding_def example_rows example_TypeError_message_def)

subsection \<open>The Success outcome\<close>



end
